theory Spec2Isabelle
  imports Main "HOL-Library.Word"
begin

section \<open>Data model\<close>

text \<open>
  The two client components \<^verbatim>\<open>components/task-list.tsx\<close> and
  \<^verbatim>\<open>components/task-comments.tsx\<close> work on the Prisma rows \<^verbatim>\<open>Task\<close>,
  \<^verbatim>\<open>User\<close> and \<^verbatim>\<open>Comment\<close>. Identifiers are JavaScript numbers holding
  integers (\<open>int\<close>). A value that may be \<^verbatim>\<open>null\<close> or \<^verbatim>\<open>undefined\<close> is an
  \<open>option\<close>.

  Free text (names, e-mail addresses, descriptions, the content of a comment, the text of
  the input) is a JavaScript string: a list of UTF-16 code units. The status and the
  priority are the lower-case words of the schema, which the code only compares with
  string literals (\<^verbatim>\<open>t.status === "done"\<close>); they are \<open>string\<close>.
\<close>

type_synonym date = int

type_synonym code_unit = "16 word"

type_synonym js_string = "code_unit list"

text \<open>A literal of 7-bit characters, as code units.\<close>

definition utf16 :: "string \<Rightarrow> js_string" where
  "utf16 s = map (\<lambda>c. of_nat (of_char c)) s"

record user_ref =
  user_id :: int
  user_name :: js_string
  user_email :: js_string

text \<open>\<^verbatim>\<open>CommentWithAuthor = Comment & { author: Pick<User, "id" | "name" | "email"> }\<close>\<close>

record comment =
  comment_id :: int
  comment_content :: js_string
  comment_taskId :: int
  comment_authorId :: int
  comment_author :: user_ref
  comment_createdAt :: date

text \<open>
  \<^verbatim>\<open>TaskWithProfile = PrismaTask & { assignee?: Pick<User, "name"> | null; comments?: CommentWithAuthor[] }\<close>
\<close>

record task =
  task_id :: int
  task_name :: js_string
  task_description :: js_string
  task_priority :: string
  task_status :: string
  task_dueDate :: "date option"
  task_assigneeId :: "int option"
  task_creatorId :: int
  task_assignee :: "js_string option"
  task_comments :: "comment list option"

section \<open>The optimistic reducer of TaskList\<close>

text \<open>
  The payload of \<^verbatim>\<open>setOptimisticTasks\<close> is
  \<^verbatim>\<open>{ action: "delete" | "toggle"; task: TaskWithProfile | { id: number } }\<close>.
\<close>

datatype action_kind = Delete | Toggle

datatype task_ref = WholeTask task | IdOnly int

fun ref_id :: "task_ref \<Rightarrow> int" where
  "ref_id (WholeTask t) = task_id t"
| "ref_id (IdOnly i) = i"

record optimistic_action =
  action :: action_kind
  task :: task_ref

text \<open>
  \<^verbatim>\<open>
  (state, { action, task }) => {
    if (action === "delete") {
      return state.filter((t) => t.id !== task.id)
    }
    if (action === "toggle") {
      return state.map((t) => (t.id === task.id ? { ...t, status: t.status === "done" ? "todo" : "done" } : t))
    }
    return state
  }
  \<close>
  The last \<^verbatim>\<open>return state\<close> is unreachable for a payload of the declared type.
\<close>

definition toggled :: "task \<Rightarrow> task" where
  "toggled t = t\<lparr>task_status := (if task_status t = ''done'' then ''todo'' else ''done'')\<rparr>"

definition reducer :: "task list \<Rightarrow> optimistic_action \<Rightarrow> task list" where
  "reducer state a =
     (case action a of
        Delete \<Rightarrow> filter (\<lambda>t. task_id t \<noteq> ref_id (task a)) state
      | Toggle \<Rightarrow> map (\<lambda>t. if task_id t = ref_id (task a) then toggled t else t) state)"

section \<open>JavaScript string functions used by the components\<close>

text \<open>
  \<^verbatim>\<open>String.prototype.trim\<close> removes leading and trailing white space and line
  terminators. White space is TAB, VT, FF, SPACE, NO-BREAK SPACE, U+FEFF and the other
  space separators (U+1680, U+2000 to U+200A, U+202F, U+205F, U+3000); the line
  terminators are LF, CR, U+2028 and U+2029. Each of them is one code unit.
\<close>

definition is_whitespace :: "code_unit \<Rightarrow> bool" where
  "is_whitespace u \<longleftrightarrow>
     u \<in> {0x0009, 0x000A, 0x000B, 0x000C, 0x000D, 0x0020, 0x00A0, 0x1680, 0x2028, 0x2029,
          0x202F, 0x205F, 0x3000, 0xFEFF}
     \<or> (0x2000 \<le> u \<and> u \<le> 0x200A)"

definition trim :: "js_string \<Rightarrow> js_string" where
  "trim s = rev (dropWhile is_whitespace (rev (dropWhile is_whitespace s)))"

text \<open>
  \<^verbatim>\<open>s.split(sep)\<close> with a separator of one code unit: the pieces between the
  occurrences of the separator, empty pieces included; it never returns the empty array.
\<close>

fun js_split :: "code_unit \<Rightarrow> js_string \<Rightarrow> js_string list" where
  "js_split sep [] = [[]]"
| "js_split sep (c # cs) =
     (if c = sep then [] # js_split sep cs
      else (case js_split sep cs of
              [] \<Rightarrow> [[c]]
            | w # ws \<Rightarrow> (c # w) # ws))"

text \<open>\<^verbatim>\<open>n[0]\<close> is the first code unit, and \<^verbatim>\<open>undefined\<close> on the empty string.\<close>

fun index0 :: "js_string \<Rightarrow> code_unit option" where
  "index0 [] = None"
| "index0 (c # cs) = Some c"

text \<open>\<^verbatim>\<open>.join("")\<close> writes \<^verbatim>\<open>undefined\<close> elements as the empty string.\<close>

fun join_empty :: "code_unit option list \<Rightarrow> js_string" where
  "join_empty [] = []"
| "join_empty (None # xs) = join_empty xs"
| "join_empty (Some c # xs) = c # join_empty xs"

text \<open>
  \<^verbatim>\<open>String.prototype.toUpperCase\<close> follows the case mappings of the Unicode character
  database, which are not part of the components: the functions that call it take it as
  their first argument. On the letters a to z it is the mapping below, which serves as a
  sample value of that argument for names of 7-bit characters.
\<close>

definition upper_7bit :: "code_unit \<Rightarrow> code_unit" where
  "upper_7bit u = (if 0x61 \<le> u \<and> u \<le> 0x7A then u - 0x20 else u)"

section \<open>getInitials (both components define the same function)\<close>

text \<open>
  \<^verbatim>\<open>
  const getInitials = (name: string | null) => {
    if (!name) return "??"
    return name.split(" ").map((n) => n[0]).join("").toUpperCase()
  }
  \<close>
  \<^verbatim>\<open>!name\<close> holds for \<^verbatim>\<open>null\<close> and for the empty string.
\<close>

fun getInitials :: "(js_string \<Rightarrow> js_string) \<Rightarrow> js_string option \<Rightarrow> js_string" where
  "getInitials toUpperCase None = utf16 ''??''"
| "getInitials toUpperCase (Some name) =
     (if name = [] then utf16 ''??''
      else toUpperCase (join_empty (map index0 (js_split 0x20 name))))"

text \<open>
  The derivation in the words of the specification: split on white space, take the first
  character of each token, concatenate, uppercase; the placeholder when there is no name.
\<close>

fun split_whitespace :: "js_string \<Rightarrow> js_string list" where
  "split_whitespace [] = [[]]"
| "split_whitespace (c # cs) =
     (if is_whitespace c then [] # split_whitespace cs
      else (case split_whitespace cs of
              [] \<Rightarrow> [[c]]
            | w # ws \<Rightarrow> (c # w) # ws))"

definition tokens :: "js_string \<Rightarrow> js_string list" where
  "tokens s = filter (\<lambda>w. w \<noteq> []) (split_whitespace s)"

fun getInitials_spec :: "(js_string \<Rightarrow> js_string) \<Rightarrow> js_string option \<Rightarrow> js_string" where
  "getInitials_spec toUpperCase None = utf16 ''??''"
| "getInitials_spec toUpperCase (Some name) = toUpperCase (map hd (tokens name))"

section \<open>JavaScript values, promises and the calls to the server actions\<close>

text \<open>
  The operands of \<^verbatim>\<open>&&\<close> in the components are an optional number, a boolean or
  \<^verbatim>\<open>undefined\<close>. \<^verbatim>\<open>a && b\<close> is \<^verbatim>\<open>a\<close> when \<^verbatim>\<open>a\<close> is falsy and
  \<^verbatim>\<open>b\<close> otherwise; \<^verbatim>\<open>undefined\<close>, \<^verbatim>\<open>false\<close> and the number 0 are falsy.
\<close>

datatype js_value = Undefined | Number int | Boolean bool

fun truthy :: "js_value \<Rightarrow> bool" where
  "truthy Undefined = False"
| "truthy (Number n) = (n \<noteq> 0)"
| "truthy (Boolean b) = b"

definition js_and :: "js_value \<Rightarrow> js_value \<Rightarrow> js_value" where
  "js_and a b = (if truthy a then b else a)"

fun optional_number :: "int option \<Rightarrow> js_value" where
  "optional_number None = Undefined"
| "optional_number (Some n) = Number n"

text \<open>
  \<^verbatim>\<open>{v && <Element/>}\<close> in JSX: React draws the element when \<^verbatim>\<open>v\<close> is truthy,
  the digits of a falsy number, and nothing for \<^verbatim>\<open>undefined\<close> and \<^verbatim>\<open>false\<close>.
\<close>

datatype 'a rendered = Nothing | NumberText int | Element 'a

fun jsx_and :: "js_value \<Rightarrow> 'a \<Rightarrow> 'a rendered" where
  "jsx_and Undefined e = Nothing"
| "jsx_and (Boolean b) e = (if b then Element e else Nothing)"
| "jsx_and (Number n) e = (if n \<noteq> 0 then Element e else NumberText n)"

text \<open>
  An awaited promise either resolves with a value or rejects with an error. None of the
  awaits in the components that sit inside \<^verbatim>\<open>startTransition\<close> has a
  \<^verbatim>\<open>catch\<close>: a rejection there is thrown again by the transition and reaches the
  nearest error boundary, which takes the component off the screen. A handler that can
  end so returns an optional state, \<open>None\<close> for the component that is gone.
\<close>

datatype 'a outcome = Resolved 'a | Rejected string

text \<open>
  The server actions of \<^verbatim>\<open>app/(dashboard)/tasks/actions\<close> are external; a handler
  returns the calls it makes, in order.
\<close>

datatype call =
    UpdateTaskStatus int string
  | DeleteTask int
  | AddComment int js_string
  | DeleteComment int


section \<open>TaskComments\<close>

record comments_props =
  taskId :: int
  comments :: "comment list"
  currentUserId :: "int option"
  taskCreatorId :: "int option"

text \<open>
  The local state is the text of the input, \<^verbatim>\<open>useState("")\<close>. The pending flag of
  \<^verbatim>\<open>useTransition\<close> only disables controls and is left out.
\<close>

record comments_state =
  newComment :: js_string

text \<open>The part of the result of \<^verbatim>\<open>addComment\<close> that the component reads.\<close>

record add_result =
  success :: bool

text \<open>
  \<^verbatim>\<open>
  const handleAddComment = async () => {
    if (!newComment.trim()) return
    startTransition(async () => {
      const result = await addComment(taskId, newComment)
      if (result.success) { setNewComment("") }
    })
  }
  \<close>
  The first argument is the answer of the external \<^verbatim>\<open>addComment\<close> to a call.
\<close>

definition handleAddComment ::
  "(int \<Rightarrow> js_string \<Rightarrow> add_result outcome) \<Rightarrow> comments_props \<Rightarrow> comments_state
     \<Rightarrow> call list \<times> comments_state option" where
  "handleAddComment addComment props st =
     (if trim (newComment st) = [] then ([], Some st)
      else
        (case addComment (taskId props) (newComment st) of
           Resolved result \<Rightarrow>
             ([AddComment (taskId props) (newComment st)],
              Some (if success result then st\<lparr>newComment := []\<rparr> else st))
         | Rejected e \<Rightarrow> ([AddComment (taskId props) (newComment st)], None)))"

text \<open>
  \<^verbatim>\<open>
  const handleDeleteComment = async (commentId: number) => {
    startTransition(async () => { await deleteComment(commentId) })
  }
  \<close>
  This is the step of the handler itself: the call is issued and no local state is set,
  whatever the call settles with later.
\<close>

definition handleDeleteComment ::
  "(int \<Rightarrow> unit outcome) \<Rightarrow> int \<Rightarrow> comments_state \<Rightarrow> call list \<times> comments_state" where
  "handleDeleteComment deleteComment commentId st = ([DeleteComment commentId], st)"

text \<open>
  \<^verbatim>\<open>
  const canDeleteComment = (comment: CommentWithAuthor) => {
    return currentUserId && (comment.authorId === currentUserId || taskCreatorId === currentUserId)
  }
  \<close>
\<close>

definition canDeleteComment :: "comments_props \<Rightarrow> comment \<Rightarrow> js_value" where
  "canDeleteComment props c =
     js_and (optional_number (currentUserId props))
       (Boolean (Some (comment_authorId c) = currentUserId props
                 \<or> taskCreatorId props = currentUserId props))"

text \<open>
  What the component draws: the heading with the count, the list (or the note that there
  are no comments), and the form with the text of the input. A row shows the author's
  initials and name, the content and, when \<^verbatim>\<open>canDeleteComment(comment)\<close> allows it,
  the delete button, which carries the id it deletes. The date label comes from the
  external formatter and is left out.
\<close>

record comment_row =
  row_key :: int
  row_initials :: js_string
  row_author :: js_string
  row_content :: js_string
  row_delete :: "int rendered"

datatype comments_body = NoCommentsYet | Rows "comment_row list"

record add_form =
  form_value :: js_string

record comments_view =
  heading_count :: nat
  body :: comments_body
  form :: "add_form rendered"

definition draw_comment ::
  "(js_string \<Rightarrow> js_string) \<Rightarrow> comments_props \<Rightarrow> comment \<Rightarrow> comment_row" where
  "draw_comment toUpperCase props c =
     \<lparr>row_key = comment_id c,
      row_initials = getInitials toUpperCase (Some (user_name (comment_author c))),
      row_author = user_name (comment_author c),
      row_content = comment_content c,
      row_delete = jsx_and (canDeleteComment props c) (comment_id c)\<rparr>"

definition TaskComments ::
  "(js_string \<Rightarrow> js_string) \<Rightarrow> comments_props \<Rightarrow> comments_state \<Rightarrow> comments_view" where
  "TaskComments toUpperCase props st =
     \<lparr>heading_count = length (comments props),
      body = (if length (comments props) = 0 then NoCommentsYet
              else Rows (map (draw_comment toUpperCase props) (comments props))),
      form = jsx_and (optional_number (currentUserId props))
               \<lparr>form_value = newComment st\<rparr>\<rparr>"

text \<open>The comments that are on the screen, by id, in the order drawn.\<close>

definition shown_comments :: "comments_view \<Rightarrow> int list" where
  "shown_comments v = (case body v of NoCommentsYet \<Rightarrow> [] | Rows rs \<Rightarrow> map row_key rs)"

section \<open>TaskList\<close>

text \<open>
  \<^verbatim>\<open>useOptimistic(initialTasks, reducer)\<close> returns the value passed to it, here the
  prop \<^verbatim>\<open>initialTasks\<close> (the confirmed collection), unless transitions are in flight;
  then it returns that value with the reducer applied for each optimistic update
  dispatched since, in the order they were dispatched. React keeps every optimistic update
  until all transitions in flight have finished. The state keeps the prop, the optimistic
  updates, the number of transitions in flight, the current user
  (\<^verbatim>\<open>useState(null)\<close>) and the lines written with \<^verbatim>\<open>console.error\<close>. The open
  flags of the dialogs and menus play no part below and are left out.
\<close>

record tasklist_state =
  initialTasks :: "task list"
  pending :: "optimistic_action list"
  in_flight :: nat
  currentUser :: "user_ref option"
  console :: "(string \<times> string) list"

definition optimisticTasks :: "tasklist_state \<Rightarrow> task list" where
  "optimisticTasks st = foldl reducer (initialTasks st) (pending st)"

definition mount :: "task list \<Rightarrow> tasklist_state" where
  "mount tasks =
     \<lparr>initialTasks = tasks, pending = [], in_flight = 0, currentUser = None, console = []\<rparr>"

text \<open>
  \<^verbatim>\<open>
  const loadCurrentUser = async () => {
    try { const user = await getCurrentUser(); setCurrentUser(user) }
    catch (error) { console.error("Failed to load current user:", error) }
  }
  \<close>
\<close>

definition loadCurrentUser :: "user_ref option outcome \<Rightarrow> tasklist_state \<Rightarrow> tasklist_state" where
  "loadCurrentUser r st =
     (case r of
        Resolved user \<Rightarrow> st\<lparr>currentUser := user\<rparr>
      | Rejected error \<Rightarrow> st\<lparr>console := console st @ [(''Failed to load current user:'', error)]\<rparr>)"

text \<open>
  \<^verbatim>\<open>
  const handleDelete = async (taskId: number) => {
    startTransition(async () => {
      setOptimisticTasks({ action: "delete", task: { id: taskId } })
      await deleteTask(taskId)
    })
  }
  const handleToggle = async (task: TaskWithProfile) => {
    startTransition(async () => {
      setOptimisticTasks({ action: "toggle", task })
      await updateTaskStatus(task.id, task.status === "done" ? "todo" : "done")
    })
  }
  \<close>
  Each handler starts a transition: one more transition is in flight, the optimistic
  update becomes pending and the server action is called. The result of the awaited call
  is not read.
\<close>

definition handleDelete :: "int \<Rightarrow> tasklist_state \<Rightarrow> call list \<times> tasklist_state" where
  "handleDelete tid st =
     ([DeleteTask tid],
      st\<lparr>pending := pending st @ [\<lparr>action = Delete, task = IdOnly tid\<rparr>],
         in_flight := in_flight st + 1\<rparr>)"

definition handleToggle :: "task \<Rightarrow> tasklist_state \<Rightarrow> call list \<times> tasklist_state" where
  "handleToggle t st =
     ([UpdateTaskStatus (task_id t) (if task_status t = ''done'' then ''todo'' else ''done'')],
      st\<lparr>pending := pending st @ [\<lparr>action = Toggle, task = WholeTask t\<rparr>],
         in_flight := in_flight st + 1\<rparr>)"


text \<open>
  The rows are drawn from the optimistic collection:
  \<^verbatim>\<open>optimisticTasks.map((task) => ...)\<close>, with
  \<^verbatim>\<open>onCheckedChange={() => handleToggle(task)}\<close> on the checkbox,
  \<^verbatim>\<open>onClick={() => handleDelete(task.id)}\<close> on the menu item, and
  \<^verbatim>\<open>
  <TaskComments taskId={task.id} comments={task.comments || []}
                currentUserId={currentUser?.id} taskCreatorId={task.creatorId} />
  \<close>
  in the dialog. A click on a row that is not drawn does nothing.
\<close>

definition click_checkbox :: "nat \<Rightarrow> tasklist_state \<Rightarrow> call list \<times> tasklist_state" where
  "click_checkbox k st =
     (if k < length (optimisticTasks st) then handleToggle (optimisticTasks st ! k) st
      else ([], st))"

definition click_delete :: "nat \<Rightarrow> tasklist_state \<Rightarrow> call list \<times> tasklist_state" where
  "click_delete k st =
     (if k < length (optimisticTasks st) then handleDelete (task_id (optimisticTasks st ! k)) st
      else ([], st))"

definition dialog_props :: "tasklist_state \<Rightarrow> task \<Rightarrow> comments_props" where
  "dialog_props st t =
     \<lparr>taskId = task_id t,
      comments = (case task_comments t of None \<Rightarrow> [] | Some cs \<Rightarrow> cs),
      currentUserId = map_option user_id (currentUser st),
      taskCreatorId = Some (task_creatorId t)\<rparr>"

section \<open>Sample data\<close>

definition sample_user :: user_ref where
  "sample_user =
     \<lparr>user_id = 2, user_name = utf16 ''Jane Smith'', user_email = utf16 ''jane@example.com''\<rparr>"

definition sample_comment :: comment where
  "sample_comment = \<lparr>comment_id = 7, comment_content = utf16 ''Looks good'', comment_taskId = 1,
     comment_authorId = 2, comment_author = sample_user, comment_createdAt = 0\<rparr>"

definition zero_comment :: comment where
  "zero_comment = sample_comment\<lparr>comment_authorId := 0\<rparr>"

definition sample_task :: "string \<Rightarrow> task" where
  "sample_task s =
     \<lparr>task_id = 1, task_name = utf16 ''Write report'', task_description = utf16 ''Quarterly'',
     task_priority = ''high'', task_status = s, task_dueDate = None, task_assigneeId = Some 2,
     task_creatorId = 3, task_assignee = Some (utf16 ''Jane Smith''), task_comments = Some [sample_comment]\<rparr>"

definition other_task :: task where
  "other_task = \<lparr>task_id = 2, task_name = utf16 ''Review'', task_description = [],
     task_priority = ''low'', task_status = ''todo'', task_dueDate = Some 86400000,
     task_assigneeId = None, task_creatorId = 2, task_assignee = None, task_comments = None\<rparr>"

definition sample_props :: "int option \<Rightarrow> comments_props" where
  "sample_props u =
     \<lparr>taskId = 1, comments = [sample_comment], currentUserId = u, taskCreatorId = Some 3\<rparr>"

section \<open>Properties of the reducer\<close>

lemma reducer_toggle_length:
  "length (reducer s \<lparr>action = Toggle, task = r\<rparr>) = length s"
  by (simp add: reducer_def)

lemma reducer_toggle_nth:
  "k < length s \<Longrightarrow>
   reducer s \<lparr>action = Toggle, task = r\<rparr> ! k =
     (if task_id (s ! k) = ref_id r then toggled (s ! k) else s ! k)"
  by (simp add: reducer_def)

lemma reducer_delete_eq:
  "reducer s \<lparr>action = Delete, task = r\<rparr> = filter (\<lambda>t. task_id t \<noteq> ref_id r) s"
  by (simp add: reducer_def)

lemma toggled_id: "task_id (toggled t) = task_id t"
  by (simp add: toggled_def)

lemma toggled_status:
  "task_status (toggled t) = (if task_status t = ''done'' then ''todo'' else ''done'')"
  by (simp add: toggled_def)

text \<open>
  C1, as stated, fails: a task whose status is \<^verbatim>\<open>in_progress\<close> is \<^verbatim>\<open>done\<close> after
  one toggle and \<^verbatim>\<open>todo\<close> after two, not \<^verbatim>\<open>in_progress\<close> again.
\<close>

theorem toggle_twice_counterexample:
  "task_status
     (reducer
        (reducer [sample_task ''in_progress'']
           \<lparr>action = Toggle, task = WholeTask (sample_task ''in_progress'')\<rparr>)
        \<lparr>action = Toggle, task = WholeTask (sample_task ''in_progress'')\<rparr> ! 0)
   \<noteq> task_status ([sample_task ''in_progress''] ! 0)"
  by (simp add: reducer_def toggled_def sample_task_def)

text \<open>
  C1, amended: for a task of the optimistic collection, two toggle actions on its id in a
  row bring its status back to the original value exactly when that value was \<^verbatim>\<open>todo\<close>
  or \<^verbatim>\<open>done\<close>; from any other status (\<^verbatim>\<open>in_progress\<close>) the task ends as
  \<^verbatim>\<open>todo\<close>.
\<close>

theorem toggle_twice:
  "k < length s \<and> task_id (s ! k) = ref_id r \<longrightarrow>
     ((task_status
         (reducer (reducer s \<lparr>action = Toggle, task = r\<rparr>) \<lparr>action = Toggle, task = r\<rparr> ! k)
       = task_status (s ! k))
      = (task_status (s ! k) = ''todo'' \<or> task_status (s ! k) = ''done''))
     \<and> (task_status (s ! k) \<noteq> ''todo'' \<and> task_status (s ! k) \<noteq> ''done'' \<longrightarrow>
          task_status
            (reducer (reducer s \<lparr>action = Toggle, task = r\<rparr>) \<lparr>action = Toggle, task = r\<rparr> ! k)
          = ''todo'')"
  by (auto simp: reducer_toggle_nth reducer_toggle_length toggled_id toggled_status)

theorem toggle_twice_witness:
  "(0::nat) < length [sample_task ''done'', other_task]
   \<and> task_id ([sample_task ''done'', other_task] ! 0) = ref_id (IdOnly 1)
   \<and> task_status
        (reducer (reducer [sample_task ''done'', other_task] \<lparr>action = Toggle, task = IdOnly 1\<rparr>)
           \<lparr>action = Toggle, task = IdOnly 1\<rparr> ! 0) = ''done''
   \<and> (0::nat) < length [sample_task ''in_progress'']
   \<and> task_status ([sample_task ''in_progress''] ! 0) \<noteq> ''todo''
   \<and> task_status ([sample_task ''in_progress''] ! 0) \<noteq> ''done''
   \<and> task_status
        (reducer (reducer [sample_task ''in_progress''] \<lparr>action = Toggle, task = IdOnly 1\<rparr>)
           \<lparr>action = Toggle, task = IdOnly 1\<rparr> ! 0) = ''todo''"
  using toggle_twice [of 0 "[sample_task ''done'', other_task]" "IdOnly 1"]
    toggle_twice [of 0 "[sample_task ''in_progress'']" "IdOnly 1"]
  by (simp add: sample_task_def)

text \<open>
  C10: a toggle action keeps the length of the collection and, at every position, every
  field other than the status (id, name, description, priority, due date, assignee,
  creator, comments); a task with another id is left as it is. A delete action leaves the
  tasks with another id as they are, in their order.
\<close>

theorem reducer_frame:
  "length (reducer s \<lparr>action = Toggle, task = r\<rparr>) = length s \<and>
   (\<forall>k < length s.
      task_id (reducer s \<lparr>action = Toggle, task = r\<rparr> ! k) = task_id (s ! k) \<and>
      task_name (reducer s \<lparr>action = Toggle, task = r\<rparr> ! k) = task_name (s ! k) \<and>
      task_description (reducer s \<lparr>action = Toggle, task = r\<rparr> ! k) = task_description (s ! k) \<and>
      task_priority (reducer s \<lparr>action = Toggle, task = r\<rparr> ! k) = task_priority (s ! k) \<and>
      task_dueDate (reducer s \<lparr>action = Toggle, task = r\<rparr> ! k) = task_dueDate (s ! k) \<and>
      task_assigneeId (reducer s \<lparr>action = Toggle, task = r\<rparr> ! k) = task_assigneeId (s ! k) \<and>
      task_creatorId (reducer s \<lparr>action = Toggle, task = r\<rparr> ! k) = task_creatorId (s ! k) \<and>
      task_assignee (reducer s \<lparr>action = Toggle, task = r\<rparr> ! k) = task_assignee (s ! k) \<and>
      task_comments (reducer s \<lparr>action = Toggle, task = r\<rparr> ! k) = task_comments (s ! k) \<and>
      (task_id (s ! k) \<noteq> ref_id r \<longrightarrow> reducer s \<lparr>action = Toggle, task = r\<rparr> ! k = s ! k)) \<and>
   filter (\<lambda>t. task_id t \<noteq> ref_id r) (reducer s \<lparr>action = Delete, task = r\<rparr>)
     = filter (\<lambda>t. task_id t \<noteq> ref_id r) s"
  by (simp add: reducer_toggle_nth reducer_toggle_length reducer_delete_eq toggled_def)

theorem reducer_frame_witness:
  "(1::nat) < length [sample_task ''todo'', other_task]
   \<and> task_id ([sample_task ''todo'', other_task] ! 1) \<noteq> ref_id (IdOnly 1)
   \<and> reducer [sample_task ''todo'', other_task] \<lparr>action = Toggle, task = IdOnly 1\<rparr> ! 1 = other_task
   \<and> task_name (reducer [sample_task ''todo'', other_task] \<lparr>action = Toggle, task = IdOnly 1\<rparr> ! 0)
       = utf16 ''Write report''
   \<and> filter (\<lambda>t. task_id t \<noteq> 1)
        (reducer [sample_task ''todo'', other_task] \<lparr>action = Delete, task = IdOnly 1\<rparr>)
       = [other_task]"
  using reducer_frame [of "[sample_task ''todo'', other_task]" "IdOnly 1"]
  by (simp add: sample_task_def other_task_def)

section \<open>Properties of TaskComments\<close>

text \<open>
  C2, as stated, fails for the user id 0: the guard \<^verbatim>\<open>currentUserId &&\<close> tests
  truthiness, not definedness, so for a defined id 0 that equals the author id the
  function returns the falsy number 0.
\<close>

theorem canDeleteComment_counterexample:
  "\<not> (truthy (canDeleteComment (sample_props (Some 0)) zero_comment)
       \<longleftrightarrow> currentUserId (sample_props (Some 0)) \<noteq> None
           \<and> (Some (comment_authorId zero_comment) = currentUserId (sample_props (Some 0))
              \<or> taskCreatorId (sample_props (Some 0)) = currentUserId (sample_props (Some 0))))"
  by (simp add: canDeleteComment_def js_and_def sample_props_def zero_comment_def
      sample_comment_def)

text \<open>
  C2, amended: \<^verbatim>\<open>canDeleteComment\<close> returns a truthy value if and only if
  \<^verbatim>\<open>currentUserId\<close> is defined and not 0 and equals the comment's
  \<^verbatim>\<open>authorId\<close> or \<^verbatim>\<open>taskCreatorId\<close>; that value is then \<^verbatim>\<open>true\<close>. In all
  other cases the value is falsy: \<^verbatim>\<open>undefined\<close> when \<^verbatim>\<open>currentUserId\<close> is
  undefined, the number 0 when it is 0, and \<^verbatim>\<open>false\<close> otherwise.
\<close>

theorem canDeleteComment_iff:
  "(truthy (canDeleteComment props c)
      \<longleftrightarrow> currentUserId props \<noteq> None \<and> currentUserId props \<noteq> Some 0
          \<and> (Some (comment_authorId c) = currentUserId props
             \<or> taskCreatorId props = currentUserId props))
   \<and> (truthy (canDeleteComment props c) \<longrightarrow> canDeleteComment props c = Boolean True)
   \<and> (currentUserId props = None \<longrightarrow> canDeleteComment props c = Undefined)
   \<and> (currentUserId props = Some 0 \<longrightarrow> canDeleteComment props c = Number 0)
   \<and> (\<not> truthy (canDeleteComment props c) \<and> currentUserId props \<noteq> None
         \<and> currentUserId props \<noteq> Some 0 \<longrightarrow>
       canDeleteComment props c = Boolean False)"
  by (cases "currentUserId props") (auto simp: canDeleteComment_def js_and_def)

theorem canDeleteComment_iff_witness:
  "truthy (canDeleteComment (sample_props (Some 2)) sample_comment)
   \<and> canDeleteComment (sample_props (Some 2)) sample_comment = Boolean True
   \<and> truthy (canDeleteComment (sample_props (Some 3)) sample_comment)
   \<and> \<not> truthy (canDeleteComment (sample_props (Some 4)) sample_comment)
   \<and> canDeleteComment (sample_props (Some 4)) sample_comment = Boolean False
   \<and> currentUserId (sample_props None) = None
   \<and> canDeleteComment (sample_props None) sample_comment = Undefined
   \<and> currentUserId (sample_props (Some 0)) = Some 0
   \<and> canDeleteComment (sample_props (Some 0)) sample_comment = Number 0"
proof -
  have author: "currentUserId (sample_props (Some 2)) \<noteq> None
      \<and> currentUserId (sample_props (Some 2)) \<noteq> Some 0
      \<and> Some (comment_authorId sample_comment) = currentUserId (sample_props (Some 2))"
    by (simp add: sample_props_def sample_comment_def)
  have creator: "currentUserId (sample_props (Some 3)) \<noteq> None
      \<and> currentUserId (sample_props (Some 3)) \<noteq> Some 0
      \<and> taskCreatorId (sample_props (Some 3)) = currentUserId (sample_props (Some 3))"
    by (simp add: sample_props_def)
  have stranger: "Some (comment_authorId sample_comment) \<noteq> currentUserId (sample_props (Some 4))
      \<and> taskCreatorId (sample_props (Some 4)) \<noteq> currentUserId (sample_props (Some 4))
      \<and> currentUserId (sample_props (Some 4)) \<noteq> None
      \<and> currentUserId (sample_props (Some 4)) \<noteq> Some 0"
    by (simp add: sample_props_def sample_comment_def)
  have nobody: "currentUserId (sample_props None) = None"
    by (simp add: sample_props_def)
  have zero: "currentUserId (sample_props (Some 0)) = Some 0"
    by (simp add: sample_props_def)
  have by_author: "truthy (canDeleteComment (sample_props (Some 2)) sample_comment)
      \<and> canDeleteComment (sample_props (Some 2)) sample_comment = Boolean True"
    using author canDeleteComment_iff [of "sample_props (Some 2)" sample_comment] by blast
  have by_creator: "truthy (canDeleteComment (sample_props (Some 3)) sample_comment)"
    using creator canDeleteComment_iff [of "sample_props (Some 3)" sample_comment] by blast
  have by_stranger: "\<not> truthy (canDeleteComment (sample_props (Some 4)) sample_comment)
      \<and> canDeleteComment (sample_props (Some 4)) sample_comment = Boolean False"
    using stranger canDeleteComment_iff [of "sample_props (Some 4)" sample_comment] by blast
  have by_nobody: "canDeleteComment (sample_props None) sample_comment = Undefined"
    using nobody canDeleteComment_iff [of "sample_props None" sample_comment] by blast
  have by_zero: "canDeleteComment (sample_props (Some 0)) sample_comment = Number 0"
    using zero canDeleteComment_iff [of "sample_props (Some 0)" sample_comment] by blast
  from by_author by_creator by_stranger by_nobody by_zero nobody zero show ?thesis
    by simp
qed

lemma trim_Nil: "trim [] = []"
  by (simp add: trim_def)

lemma trim_empty_iff: "trim s = [] \<longleftrightarrow> (\<forall>u \<in> set s. is_whitespace u)"
proof
  assume empty: "trim s = []"
  show "\<forall>u \<in> set s. is_whitespace u"
  proof (cases "dropWhile is_whitespace s")
    case Nil
    then show ?thesis by simp
  next
    case (Cons u us)
    then have "\<not> is_whitespace u"
      by (metis hd_dropWhile list.sel(1) list.simps(3))
    moreover from empty have "\<forall>v \<in> set (dropWhile is_whitespace s). is_whitespace v"
      by (simp add: trim_def)
    ultimately show ?thesis
      using Cons by simp
  qed
next
  assume "\<forall>u \<in> set s. is_whitespace u"
  then have rest: "dropWhile is_whitespace s = []"
    by simp
  show "trim s = []"
    unfolding trim_def rest by simp
qed

text \<open>
  C3: the input is empty after trimming exactly when all its code units are white space
  or line terminators (the empty input included). Then \<^verbatim>\<open>handleAddComment\<close> makes no
  call and leaves the input as it is. Otherwise it calls \<^verbatim>\<open>addComment\<close> once, with the
  task id and the input as typed (not trimmed); when the call resolves, the input is
  cleared if the \<^verbatim>\<open>success\<close> flag of the result holds, and kept, not empty, if it does
  not hold.
\<close>

theorem handleAddComment_cases:
  "((trim (newComment st) = []) = (\<forall>u \<in> set (newComment st). is_whitespace u)) \<and>
   (trim (newComment st) = [] \<longrightarrow> handleAddComment addComment props st = ([], Some st)) \<and>
   (trim (newComment st) \<noteq> [] \<longrightarrow>
      newComment st \<noteq> [] \<and>
      fst (handleAddComment addComment props st) = [AddComment (taskId props) (newComment st)] \<and>
      (\<forall>result. addComment (taskId props) (newComment st) = Resolved result \<longrightarrow>
         (success result \<longrightarrow>
            snd (handleAddComment addComment props st) = Some (st\<lparr>newComment := []\<rparr>)) \<and>
         (\<not> success result \<longrightarrow> snd (handleAddComment addComment props st) = Some st)))"
proof -
  have "trim (newComment st) \<noteq> [] \<Longrightarrow> newComment st \<noteq> []"
    using trim_Nil by auto
  then show ?thesis
    using trim_empty_iff [of "newComment st"]
    by (auto simp: handleAddComment_def split: outcome.splits)
qed

theorem handleAddComment_cases_witness:
  "trim (newComment \<lparr>newComment = [0x20, 0xA0, 0x09]\<rparr>) = []
   \<and> handleAddComment (\<lambda>i s. Resolved \<lparr>success = True\<rparr>) (sample_props (Some 2))
        \<lparr>newComment = [0x20, 0xA0, 0x09]\<rparr>
       = ([], Some \<lparr>newComment = [0x20, 0xA0, 0x09]\<rparr>)
   \<and> trim (newComment \<lparr>newComment = utf16 '' hi ''\<rparr>) \<noteq> []
   \<and> fst (handleAddComment (\<lambda>i s. Resolved \<lparr>success = True\<rparr>) (sample_props (Some 2))
        \<lparr>newComment = utf16 '' hi ''\<rparr>)
       = [AddComment 1 (utf16 '' hi '')]
   \<and> snd (handleAddComment (\<lambda>i s. Resolved \<lparr>success = True\<rparr>) (sample_props (Some 2))
        \<lparr>newComment = utf16 '' hi ''\<rparr>)
       = Some \<lparr>newComment = []\<rparr>
   \<and> snd (handleAddComment (\<lambda>i s. Resolved \<lparr>success = False\<rparr>) (sample_props (Some 2))
        \<lparr>newComment = utf16 '' hi ''\<rparr>)
       = Some \<lparr>newComment = utf16 '' hi ''\<rparr>"
proof -
  have blank: "trim [0x20, 0xA0, 0x09] = []"
    by (simp add: trim_def is_whitespace_def)
  have filled: "trim (utf16 '' hi '') \<noteq> []"
    by (simp add: trim_def is_whitespace_def utf16_def)
  have no_call: "handleAddComment (\<lambda>i s. Resolved \<lparr>success = True\<rparr>) (sample_props (Some 2))
        \<lparr>newComment = [0x20, 0xA0, 0x09]\<rparr>
       = ([], Some \<lparr>newComment = [0x20, 0xA0, 0x09]\<rparr>)"
    using blank
      handleAddComment_cases [of "\<lparr>newComment = [0x20, 0xA0, 0x09]\<rparr>"
        "\<lambda>i s. Resolved \<lparr>success = True\<rparr>" "sample_props (Some 2)"]
    by simp
  have cleared: "fst (handleAddComment (\<lambda>i s. Resolved \<lparr>success = True\<rparr>) (sample_props (Some 2))
        \<lparr>newComment = utf16 '' hi ''\<rparr>)
       = [AddComment 1 (utf16 '' hi '')]
     \<and> snd (handleAddComment (\<lambda>i s. Resolved \<lparr>success = True\<rparr>) (sample_props (Some 2))
        \<lparr>newComment = utf16 '' hi ''\<rparr>)
       = Some \<lparr>newComment = []\<rparr>"
    using filled
      handleAddComment_cases [of "\<lparr>newComment = utf16 '' hi ''\<rparr>"
        "\<lambda>i s. Resolved \<lparr>success = True\<rparr>" "sample_props (Some 2)"]
    by (simp add: sample_props_def)
  have kept: "snd (handleAddComment (\<lambda>i s. Resolved \<lparr>success = False\<rparr>) (sample_props (Some 2))
        \<lparr>newComment = utf16 '' hi ''\<rparr>)
       = Some \<lparr>newComment = utf16 '' hi ''\<rparr>"
    using filled
      handleAddComment_cases [of "\<lparr>newComment = utf16 '' hi ''\<rparr>"
        "\<lambda>i s. Resolved \<lparr>success = False\<rparr>" "sample_props (Some 2)"]
    by simp
  from blank filled no_call cleared kept show ?thesis
    by simp
qed

lemma shown_comments_TaskComments:
  "shown_comments (TaskComments toUpperCase props st) = map comment_id (comments props)"
  by (simp add: shown_comments_def TaskComments_def draw_comment_def comp_def)

text \<open>
  C8: \<^verbatim>\<open>handleDeleteComment\<close> calls \<^verbatim>\<open>deleteComment\<close> and changes no local state, so
  what the component draws after it is what it drew before; in whatever local state, the
  comments on the screen are those of the \<^verbatim>\<open>comments\<close> prop, in their order, and the
  heading counts them.
\<close>

theorem deleteComment_not_optimistic:
  "fst (handleDeleteComment deleteComment commentId st) = [DeleteComment commentId]
   \<and> snd (handleDeleteComment deleteComment commentId st) = st
   \<and> TaskComments toUpperCase props (snd (handleDeleteComment deleteComment commentId st))
       = TaskComments toUpperCase props st
   \<and> shown_comments (TaskComments toUpperCase props st') = map comment_id (comments props)
   \<and> heading_count (TaskComments toUpperCase props st') = length (comments props)"
  by (simp add: handleDeleteComment_def shown_comments_TaskComments) (simp add: TaskComments_def)

section \<open>Properties of getInitials\<close>

text \<open>
  C9: the guard \<^verbatim>\<open>!name\<close> tests truthiness, so the empty string gets the placeholder
  \<^verbatim>\<open>"??"\<close>, as a missing name does.
\<close>

theorem getInitials_empty_string:
  "getInitials toUpperCase (Some []) = utf16 ''??''
   \<and> getInitials toUpperCase (Some []) = getInitials toUpperCase None"
  by simp

lemma join_empty_index0: "join_empty (map index0 ws) = map hd (filter (\<lambda>w. w \<noteq> []) ws)"
proof (induction ws)
  case Nil
  show ?case by simp
next
  case (Cons w ws)
  then show ?case by (cases w) simp_all
qed

lemma split_whitespace_space_only:
  "\<forall>c \<in> set s. is_whitespace c \<longrightarrow> c = 0x20 \<Longrightarrow> split_whitespace s = js_split 0x20 s"
proof (induction s)
  case Nil
  show ?case by simp
next
  case (Cons c cs)
  have sp: "is_whitespace 0x20" by (simp add: is_whitespace_def)
  from Cons.prems have "is_whitespace c \<longleftrightarrow> c = 0x20"
    using sp by auto
  moreover from Cons have "split_whitespace cs = js_split 0x20 cs"
    by simp
  ultimately show ?case by simp
qed

text \<open>
  C6, as stated, fails in two places. The code splits at the space character only, so a
  name whose parts are separated by a TAB has one initial where splitting on white space
  gives two. And the empty string, which is not null, gets the placeholder where the
  derivation gives the empty string. Both names are 7-bit, where
  \<^verbatim>\<open>toUpperCase\<close> is the mapping of a to z.
\<close>

theorem getInitials_counterexample:
  "getInitials (map upper_7bit) (Some (utf16 ''jane'' @ [0x09] @ utf16 ''smith''))
     \<noteq> getInitials_spec (map upper_7bit) (Some (utf16 ''jane'' @ [0x09] @ utf16 ''smith''))
   \<and> getInitials (map upper_7bit) (Some []) \<noteq> getInitials_spec (map upper_7bit) (Some [])"
  by (simp add: utf16_def upper_7bit_def tokens_def is_whitespace_def)

text \<open>
  C6, amended: without a name (null) the result is \<^verbatim>\<open>"??"\<close>. For a name that is not
  empty the result is \<^verbatim>\<open>toUpperCase\<close> applied to the concatenation of the first code
  units of the non-empty pieces between space characters (U+0020); so
  \<^verbatim>\<open>"Jane Smith"\<close> gives \<^verbatim>\<open>"JS"\<close>, which \<^verbatim>\<open>toUpperCase\<close> leaves as it is. When the
  only white space in such a name is the space character, this is the derivation of the
  specification (split on white space, first character of each token, uppercase).
\<close>

theorem getInitials_space_separated:
  "getInitials toUpperCase None = utf16 ''??''
   \<and> (toUpperCase (utf16 ''JS'') = utf16 ''JS'' \<longrightarrow>
        getInitials toUpperCase (Some (utf16 ''Jane Smith'')) = utf16 ''JS'')
   \<and> (name \<noteq> [] \<longrightarrow>
        getInitials toUpperCase (Some name)
          = toUpperCase (map hd (filter (\<lambda>w. w \<noteq> []) (js_split 0x20 name))))
   \<and> (name \<noteq> [] \<and> (\<forall>c \<in> set name. is_whitespace c \<longrightarrow> c = 0x20) \<longrightarrow>
        getInitials toUpperCase (Some name) = getInitials_spec toUpperCase (Some name))"
proof -
  have pieces: "join_empty (map index0 (js_split 0x20 (utf16 ''Jane Smith''))) = utf16 ''JS''"
    by (simp add: utf16_def)
  have jane: "toUpperCase (utf16 ''JS'') = utf16 ''JS'' \<longrightarrow>
        getInitials toUpperCase (Some (utf16 ''Jane Smith'')) = utf16 ''JS''"
    using pieces by (simp add: utf16_def)
  have code: "name \<noteq> [] \<longrightarrow>
        getInitials toUpperCase (Some name)
          = toUpperCase (map hd (filter (\<lambda>w. w \<noteq> []) (js_split 0x20 name)))"
    by (simp add: join_empty_index0)
  have agree: "name \<noteq> [] \<and> (\<forall>c \<in> set name. is_whitespace c \<longrightarrow> c = 0x20) \<longrightarrow>
        getInitials toUpperCase (Some name) = getInitials_spec toUpperCase (Some name)"
    by (simp add: join_empty_index0 tokens_def split_whitespace_space_only)
  from jane code agree show ?thesis by simp
qed

theorem getInitials_space_separated_witness:
  "map upper_7bit (utf16 ''JS'') = utf16 ''JS''
   \<and> getInitials (map upper_7bit) (Some (utf16 ''Jane Smith'')) = utf16 ''JS''
   \<and> utf16 ''john  ronald doe'' \<noteq> []
   \<and> getInitials (map upper_7bit) (Some (utf16 ''john  ronald doe'')) = utf16 ''JRD''
   \<and> getInitials_spec (map upper_7bit) (Some (utf16 ''john  ronald doe'')) = utf16 ''JRD''"
proof -
  have same: "map upper_7bit (utf16 ''JS'') = utf16 ''JS''"
    by (simp add: utf16_def upper_7bit_def)
  have filled: "utf16 ''john  ronald doe'' \<noteq> []"
    by (simp add: utf16_def)
  have spaces: "\<forall>c \<in> set (utf16 ''john  ronald doe''). is_whitespace c \<longrightarrow> c = 0x20"
    by (simp add: utf16_def is_whitespace_def)
  have initials: "map upper_7bit
      (map hd (filter (\<lambda>w. w \<noteq> []) (js_split 0x20 (utf16 ''john  ronald doe''))))
      = utf16 ''JRD''"
    by (simp add: utf16_def upper_7bit_def)
  have jane: "getInitials (map upper_7bit) (Some (utf16 ''Jane Smith'')) = utf16 ''JS''"
    using same getInitials_space_separated [of "map upper_7bit" "utf16 ''john  ronald doe''"]
    by blast
  have john: "getInitials (map upper_7bit) (Some (utf16 ''john  ronald doe'')) = utf16 ''JRD''
      \<and> getInitials_spec (map upper_7bit) (Some (utf16 ''john  ronald doe'')) = utf16 ''JRD''"
    using filled spaces initials
      getInitials_space_separated [of "map upper_7bit" "utf16 ''john  ronald doe''"]
    by metis
  from same filled jane john show ?thesis
    by simp
qed

section \<open>Properties of TaskList\<close>

lemma optimisticTasks_no_pending: "pending st = [] \<Longrightarrow> optimisticTasks st = initialTasks st"
  by (simp add: optimisticTasks_def)

text \<open>
  C5, as stated, fails while a toggle is pending: the handler gets the task of the row as
  drawn from the optimistic collection. After one click on a confirmed \<^verbatim>\<open>todo\<close> task
  the row shows \<^verbatim>\<open>done\<close>, and a second click sends \<^verbatim>\<open>todo\<close>, although the
  confirmed status is still \<^verbatim>\<open>todo\<close> and its opposite is \<^verbatim>\<open>done\<close>.
\<close>

theorem handleToggle_counterexample:
  "fst (click_checkbox 0 (snd (click_checkbox 0 (mount [sample_task ''todo'']))))
   \<noteq> [UpdateTaskStatus 1
        (if task_status (initialTasks (snd (click_checkbox 0 (mount [sample_task ''todo'']))) ! 0) = ''done''
         then ''todo'' else ''done'')]"
  by (simp add: click_checkbox_def handleToggle_def mount_def optimisticTasks_def reducer_def
      toggled_def sample_task_def)

text \<open>
  C5, amended: \<^verbatim>\<open>handleToggle\<close> calls \<^verbatim>\<open>updateTaskStatus\<close> with the id of the
  task it is given and the opposite of that task's status: \<^verbatim>\<open>todo\<close> when it is
  \<^verbatim>\<open>done\<close>, and \<^verbatim>\<open>done\<close> otherwise, in particular for \<^verbatim>\<open>in_progress\<close>. The
  checkbox of a row passes the task of the optimistic collection; that is the confirmed
  task when no optimistic update is pending.
\<close>

theorem handleToggle_call:
  "fst (handleToggle t st)
     = [UpdateTaskStatus (task_id t) (if task_status t = ''done'' then ''todo'' else ''done'')]
   \<and> (task_status t = ''in_progress'' \<longrightarrow> fst (handleToggle t st) = [UpdateTaskStatus (task_id t) ''done''])
   \<and> (k < length (optimisticTasks st) \<longrightarrow>
        fst (click_checkbox k st)
          = [UpdateTaskStatus (task_id (optimisticTasks st ! k))
               (if task_status (optimisticTasks st ! k) = ''done'' then ''todo'' else ''done'')])
   \<and> (k < length (initialTasks st) \<and> pending st = [] \<longrightarrow>
        fst (click_checkbox k st)
          = [UpdateTaskStatus (task_id (initialTasks st ! k))
               (if task_status (initialTasks st ! k) = ''done'' then ''todo'' else ''done'')])"
  by (simp add: handleToggle_def click_checkbox_def optimisticTasks_no_pending)

theorem handleToggle_call_witness:
  "task_status (sample_task ''in_progress'') = ''in_progress''
   \<and> fst (handleToggle (sample_task ''in_progress'') (mount [sample_task ''in_progress'']))
       = [UpdateTaskStatus 1 ''done'']
   \<and> (0::nat) < length (optimisticTasks (mount [sample_task ''done'']))
   \<and> (0::nat) < length (initialTasks (mount [sample_task ''done'']))
   \<and> pending (mount [sample_task ''done'']) = []
   \<and> fst (click_checkbox 0 (mount [sample_task ''done''])) = [UpdateTaskStatus 1 ''todo'']"
proof -
  have a: "task_status (sample_task ''in_progress'') = ''in_progress''"
    and b: "task_id (sample_task ''in_progress'') = 1"
    by (simp_all add: sample_task_def)
  have c: "pending (mount [sample_task ''done'']) = []"
    and d: "initialTasks (mount [sample_task ''done'']) = [sample_task ''done'']"
    by (simp_all add: mount_def)
  have e: "optimisticTasks (mount [sample_task ''done'']) = [sample_task ''done'']"
    by (simp add: optimisticTasks_def mount_def)
  have f: "task_status (sample_task ''done'') = ''done''" "task_id (sample_task ''done'') = 1"
    by (simp_all add: sample_task_def)
  show ?thesis
    using a b c d e f
      handleToggle_call [of "sample_task ''in_progress''" "mount [sample_task ''in_progress'']" 0]
      handleToggle_call [of "sample_task ''done''" "mount [sample_task ''done'']" 0]
    by simp
qed









text \<open>
  C7: when \<^verbatim>\<open>getCurrentUser\<close> rejects, the only change is a line on the console; after
  the mount the current user is still unset. Every task of the collection is drawn, and
  in the comments of each of them the form is absent while the comments of the task are
  on the screen. The form is drawn only with a current user id.
\<close>

theorem getCurrentUser_rejected:
  "loadCurrentUser (Rejected e) st = st\<lparr>console := console st @ [(''Failed to load current user:'', e)]\<rparr>
   \<and> currentUser (loadCurrentUser (Rejected e) (mount tasks)) = None
   \<and> optimisticTasks (loadCurrentUser (Rejected e) (mount tasks)) = tasks
   \<and> (\<forall>t \<in> set (optimisticTasks (loadCurrentUser (Rejected e) (mount tasks))).
        form (TaskComments toUpperCase (dialog_props (loadCurrentUser (Rejected e) (mount tasks)) t) cs) = Nothing
        \<and> shown_comments (TaskComments toUpperCase (dialog_props (loadCurrentUser (Rejected e) (mount tasks)) t) cs)
            = map comment_id (case task_comments t of None \<Rightarrow> [] | Some xs \<Rightarrow> xs))
   \<and> (form (TaskComments toUpperCase props cs) \<noteq> Nothing \<longrightarrow> currentUserId props \<noteq> None)"
proof -
  have a: "currentUser (loadCurrentUser (Rejected e) (mount tasks)) = None"
    by (simp add: loadCurrentUser_def mount_def)
  have b: "optimisticTasks (loadCurrentUser (Rejected e) (mount tasks)) = tasks"
    by (simp add: loadCurrentUser_def mount_def optimisticTasks_def)
  have c: "form (TaskComments toUpperCase (dialog_props (loadCurrentUser (Rejected e) (mount tasks)) t) cs) = Nothing" for t
    using a by (simp add: TaskComments_def dialog_props_def)
  have d: "shown_comments (TaskComments toUpperCase (dialog_props (loadCurrentUser (Rejected e) (mount tasks)) t) cs)
            = map comment_id (case task_comments t of None \<Rightarrow> [] | Some xs \<Rightarrow> xs)" for t
    by (simp add: shown_comments_TaskComments dialog_props_def)
  have f: "form (TaskComments toUpperCase props cs) \<noteq> Nothing \<longrightarrow> currentUserId props \<noteq> None"
    by (cases "currentUserId props") (simp_all add: TaskComments_def)
  show ?thesis
    using a b c d f by (simp add: loadCurrentUser_def)
qed

theorem getCurrentUser_rejected_witness:
  "sample_task ''todo'' \<in> set (optimisticTasks (loadCurrentUser (Rejected ''no session'') (mount [sample_task ''todo''])))
   \<and> form (TaskComments (map upper_7bit) (dialog_props (loadCurrentUser (Rejected ''no session'') (mount [sample_task ''todo''])) (sample_task ''todo'')) \<lparr>newComment = []\<rparr>) = Nothing
   \<and> shown_comments (TaskComments (map upper_7bit) (dialog_props (loadCurrentUser (Rejected ''no session'') (mount [sample_task ''todo''])) (sample_task ''todo'')) \<lparr>newComment = []\<rparr>) = [7]
   \<and> form (TaskComments (map upper_7bit) (sample_props (Some 2)) \<lparr>newComment = []\<rparr>) \<noteq> Nothing
   \<and> currentUserId (sample_props (Some 2)) \<noteq> None"
proof -
  have shown: "form (TaskComments (map upper_7bit) (sample_props (Some 2)) \<lparr>newComment = []\<rparr>) \<noteq> Nothing"
    by (simp add: TaskComments_def sample_props_def)
  have cs: "task_comments (sample_task ''todo'') = Some [sample_comment]" "comment_id sample_comment = 7"
    by (simp_all add: sample_task_def sample_comment_def)
  show ?thesis
    using shown cs
      getCurrentUser_rejected [of "''no session''" "mount []" "[sample_task ''todo'']"
        "map upper_7bit" "\<lparr>newComment = []\<rparr>" "sample_props (Some 2)"]
    by simp
qed

end
